theory Spec2Isabelle
  imports Main
begin

section \<open>Expense tracker API: data model\<close>

text \<open>
  The development embeds the request handlers of \<^verbatim>\<open>main.py\<close>. The collection
  \<^verbatim>\<open>db["expense"]\<close> is a list of documents in insertion order; every handler takes
  the collection and, when it writes, returns the new one. The clock
  (\<^verbatim>\<open>datetime.utcnow()\<close>) and the identifier the store assigns on insertion are
  arguments of the handlers that read them. The store is taken to be reachable; its
  connectivity failures are outside the model.

  Amounts are Python floats. The definitions use only \<open>0\<close>, \<open>+\<close> and \<open>-\<close> of the
  number type \<open>'a\<close>, and a theorem that relies on a law of arithmetic names that law
  as an assumption, so that nothing is proved from the algebra of exact numbers that a
  rounded representation lacks.
\<close>

record date =
  d_year :: int
  d_month :: int
  d_day :: int

record datetime =
  dt_date :: date
  dt_hour :: int
  dt_minute :: int
  dt_second :: int
  dt_microsecond :: int

text \<open>An \<^verbatim>\<open>ObjectId\<close> is kept as its canonical text: 24 lower-case hexadecimal digits.\<close>

type_synonym objectid = string

text \<open>A stored document: the four fields of \<^verbatim>\<open>ExpenseCreate\<close>, the two timestamps and \<^verbatim>\<open>_id\<close>.\<close>

record 'a expense =
  doc_id :: objectid
  date :: date
  description :: string
  amount :: 'a
  kind :: string
  created_at :: datetime
  updated_at :: datetime

text \<open>\<^verbatim>\<open>class ExpenseCreate(BaseModel)\<close>: all four fields are required.\<close>

record 'a ExpenseCreate =
  c_date :: date
  c_description :: string
  c_amount :: 'a
  c_kind :: string

text \<open>\<^verbatim>\<open>class ExpenseUpdate(BaseModel)\<close>: every field is optional and defaults to \<^verbatim>\<open>None\<close>.\<close>

record 'a ExpenseUpdate =
  u_date :: "date option"
  u_description :: "string option"
  u_amount :: "'a option"
  u_kind :: "string option"

text \<open>
  What a handler raises. \<open>HTTPException\<close> carries the status code and the detail;
  \<open>InvalidId\<close> is \<^verbatim>\<open>bson.errors.InvalidId\<close>, which no handler catches.
\<close>

datatype error = HTTPException nat string | InvalidId string

text \<open>The JSON bodies \<^verbatim>\<open>{"id": ...}\<close>, \<^verbatim>\<open>{"updated": ...}\<close> and \<^verbatim>\<open>{"deleted": ...}\<close>.\<close>

datatype response = Id string | Updated bool | Deleted bool

text \<open>
  The calendar invariant of \<^verbatim>\<open>datetime.date\<close>, which the request validation of the
  \<^verbatim>\<open>date\<close> fields guarantees for every date a handler receives.
\<close>

definition is_leap :: "int \<Rightarrow> bool" where
  "is_leap y = (y mod 4 = 0 \<and> (y mod 100 \<noteq> 0 \<or> y mod 400 = 0))"

definition days_in_month :: "int \<Rightarrow> int \<Rightarrow> int" where
  "days_in_month y m =
     (if m = 2 then (if is_leap y then 29 else 28)
      else if m = 4 \<or> m = 6 \<or> m = 9 \<or> m = 11 then 30 else 31)"

definition valid_date :: "date \<Rightarrow> bool" where
  "valid_date d =
     (1 \<le> d_year d \<and> d_year d \<le> 9999 \<and> 1 \<le> d_month d \<and> d_month d \<le> 12 \<and>
      1 \<le> d_day d \<and> d_day d \<le> days_in_month (d_year d) (d_month d))"

text \<open>
  Python's truth test on an \<^verbatim>\<open>Optional[int]\<close>, as in \<^verbatim>\<open>if month:\<close> and
  \<^verbatim>\<open>year or ...\<close>: \<^verbatim>\<open>None\<close> and \<^verbatim>\<open>0\<close> are both false.
\<close>

definition truthy :: "int option \<Rightarrow> bool" where
  "truthy v = (case v of None \<Rightarrow> False | Some n \<Rightarrow> n \<noteq> 0)"

section \<open>The store's query language, as far as the handlers use it\<close>

text \<open>
  \<open>Eq Month_of_date m\<close> is \<^verbatim>\<open>{"$eq": [{"$month": "$date"}, m]}\<close>, and likewise for the
  year. A query is \<^verbatim>\<open>{}\<close>, \<^verbatim>\<open>{"$expr": e}\<close> or \<^verbatim>\<open>{"$expr": {"$and": es}}\<close>.
\<close>

datatype operand = Month_of_date | Year_of_date

datatype expr = Eq operand int

datatype query = Empty | Expr expr | And "expr list"

fun eval_operand :: "operand \<Rightarrow> 'a expense \<Rightarrow> int" where
  "eval_operand Month_of_date d = d_month (date d)"
| "eval_operand Year_of_date d = d_year (date d)"

fun eval_expr :: "expr \<Rightarrow> 'a expense \<Rightarrow> bool" where
  "eval_expr (Eq f v) d = (eval_operand f d = v)"

fun matches :: "query \<Rightarrow> 'a expense \<Rightarrow> bool" where
  "matches Empty d = True"
| "matches (Expr e) d = eval_expr e d"
| "matches (And es) d = list_all (\<lambda>e. eval_expr e d) es"

text \<open>
  \<^verbatim>\<open>$sum\<close> starts from \<open>0\<close> and adds the operand of each document of the group in turn;
  \<^verbatim>\<open>{"$cond": [{"$eq": ["$kind", k]}, "$amount", 0]}\<close> is that operand.
\<close>

definition cond_amount :: "string \<Rightarrow> 'a::zero expense \<Rightarrow> 'a" where
  "cond_amount k d = (if kind d = k then amount d else 0)"

definition sum_acc :: "('d \<Rightarrow> 'a::{zero,plus}) \<Rightarrow> 'd list \<Rightarrow> 'a" where
  "sum_acc f ds = foldl (\<lambda>acc d. acc + f d) 0 ds"

section \<open>Monthly chart\<close>

text \<open>A group of the \<^verbatim>\<open>$group\<close> stage, keyed by \<^verbatim>\<open>{"month": {"$month": "$date"}}\<close>.\<close>

record 'a month_group =
  g_month :: int
  g_debit :: 'a
  g_credit :: 'a

text \<open>An entry of the chart: \<^verbatim>\<open>{"month": m, "debit": x, "credit": y}\<close>.\<close>

record 'a chart_entry =
  entry_month :: int
  debit :: 'a
  credit :: 'a

text \<open>
  One document enters its month's group, which is opened with both sums at \<open>0\<close> when the
  month is new. Groups stay in the order in which their months first occur.
\<close>

definition accumulate :: "'a::{zero,plus} expense \<Rightarrow> 'a month_group \<Rightarrow> 'a month_group" where
  "accumulate d g =
     g\<lparr>g_debit := g_debit g + cond_amount ''debit'' d,
       g_credit := g_credit g + cond_amount ''credit'' d\<rparr>"

fun add_to_group :: "'a::{zero,plus} expense \<Rightarrow> 'a month_group list \<Rightarrow> 'a month_group list" where
  "add_to_group d [] =
     [accumulate d \<lparr>g_month = d_month (date d), g_debit = 0, g_credit = 0\<rparr>]"
| "add_to_group d (g # gs) =
     (if g_month g = d_month (date d) then accumulate d g # gs
      else g # add_to_group d gs)"

definition group_by_month :: "'a::{zero,plus} expense list \<Rightarrow> 'a month_group list" where
  "group_by_month ds = foldl (\<lambda>gs d. add_to_group d gs) [] ds"

text \<open>\<^verbatim>\<open>{"$project": {"_id": 0, "month": "$_id.month", "debit": 1, "credit": 1}}\<close>\<close>

definition project_entry :: "'a month_group \<Rightarrow> 'a chart_entry" where
  "project_entry g = \<lparr>entry_month = g_month g, debit = g_debit g, credit = g_credit g\<rparr>"

text \<open>
  The pipeline of \<^verbatim>\<open>monthly_chart\<close>: \<^verbatim>\<open>$match\<close> on the year, \<^verbatim>\<open>$group\<close> by month,
  \<^verbatim>\<open>$project\<close>, \<^verbatim>\<open>$sort\<close> ascending by month.
\<close>

definition chart_pipeline :: "int \<Rightarrow> 'a::{zero,plus} expense list \<Rightarrow> 'a chart_entry list" where
  "chart_pipeline y ds =
     sort_key entry_month
       (map project_entry (group_by_month (filter (eval_expr (Eq Year_of_date y)) ds)))"

text \<open>\<^verbatim>\<open>month_map = {d["month"]: d for d in data}\<close>: a later entry replaces an earlier one.\<close>

definition month_map :: "'a chart_entry list \<Rightarrow> (int \<rightharpoonup> 'a chart_entry)" where
  "month_map data = foldl (\<lambda>mp d. mp(entry_month d \<mapsto> d)) Map.empty data"

text \<open>\<^verbatim>\<open>y = year or datetime.utcnow().year\<close>, with the clock's year as \<open>now_year\<close>.\<close>

definition chart_year :: "int option \<Rightarrow> int \<Rightarrow> int" where
  "chart_year year now_year =
     (if truthy year then (case year of Some v \<Rightarrow> v | None \<Rightarrow> now_year) else now_year)"

text \<open>\<^verbatim>\<open>monthly_chart(year)\<close>: the aggregation, then the loop over \<^verbatim>\<open>range(1, 13)\<close>.\<close>

definition monthly_chart ::
  "int option \<Rightarrow> int \<Rightarrow> 'a::{zero,plus} expense list \<Rightarrow> 'a chart_entry list" where
  "monthly_chart year now_year ds =
     (let y = chart_year year now_year;
          data = chart_pipeline y ds;
          mp = month_map data
      in map (\<lambda>m. case mp m of
                     Some d \<Rightarrow> d
                   | None \<Rightarrow> \<lparr>entry_month = m, debit = 0, credit = 0\<rparr>) [1..12])"

section \<open>Period filter, listing and summary\<close>

text \<open>
  \<^verbatim>\<open>if month: expr_parts.append({"$eq": [{"$month": "$date"}, month]})\<close> and the same
  for the year: the parts each selector contributes to \<^verbatim>\<open>expr_parts\<close>.
\<close>

definition month_part :: "int option \<Rightarrow> expr list" where
  "month_part month =
     (if truthy month then (case month of Some m \<Rightarrow> [Eq Month_of_date m] | None \<Rightarrow> []) else [])"

definition year_part :: "int option \<Rightarrow> expr list" where
  "year_part year =
     (if truthy year then (case year of Some y \<Rightarrow> [Eq Year_of_date y] | None \<Rightarrow> []) else [])"

text \<open>
  The query \<^verbatim>\<open>list_expenses\<close> builds. (The dictionary \<^verbatim>\<open>expr\<close> with the keys
  \<^verbatim>\<open>$eq_month\<close> and \<^verbatim>\<open>$eq_year\<close> is written and never read, so it has no
  counterpart here.)
\<close>

definition list_query :: "int option \<Rightarrow> int option \<Rightarrow> query" where
  "list_query month year =
     (if truthy month \<or> truthy year then
        (let expr_parts = month_part month @ year_part year
         in if expr_parts \<noteq> [] then
              (if length expr_parts > 1 then And expr_parts
               else (case expr_parts of e # _ \<Rightarrow> Expr e | [] \<Rightarrow> Empty))
            else Empty)
      else Empty)"

text \<open>
  Modelled from the spec: \<^verbatim>\<open>get_documents\<close> of \<^verbatim>\<open>database.py\<close>, which is not among the
  sources. The spec has the listing retrieve the records matching the predicate, in the
  store's own order.
\<close>

definition get_documents :: "query \<Rightarrow> 'a expense list \<Rightarrow> 'a expense list" where
  "get_documents q ds = filter (matches q) ds"

text \<open>
  \<^verbatim>\<open>isoformat()\<close> of a date is \<^verbatim>\<open>YYYY-MM-DD\<close>; of a naive datetime it is the date,
  \<^verbatim>\<open>T\<close>, \<^verbatim>\<open>HH:MM:SS\<close> and, when the microseconds are not zero, \<^verbatim>\<open>.ffffff\<close>.
  The fields of a calendar value are never negative.
\<close>

definition digit_char :: "nat \<Rightarrow> char" where
  "digit_char n = ''0123456789'' ! (n mod 10)"

fun decimal :: "nat \<Rightarrow> string" where
  "decimal n = (if n < 10 then [digit_char n] else decimal (n div 10) @ [digit_char (n mod 10)])"

definition zero_padded :: "nat \<Rightarrow> int \<Rightarrow> string" where
  "zero_padded w n = (let s = decimal (nat n) in replicate (w - length s) (CHR ''0'') @ s)"

definition date_isoformat :: "date \<Rightarrow> string" where
  "date_isoformat d =
     zero_padded 4 (d_year d) @ ''-'' @ zero_padded 2 (d_month d) @ ''-'' @ zero_padded 2 (d_day d)"

definition datetime_isoformat :: "datetime \<Rightarrow> string" where
  "datetime_isoformat t =
     date_isoformat (dt_date t) @ ''T'' @ zero_padded 2 (dt_hour t) @ '':'' @
     zero_padded 2 (dt_minute t) @ '':'' @ zero_padded 2 (dt_second t) @
     (if dt_microsecond t \<noteq> 0 then ''.'' @ zero_padded 6 (dt_microsecond t) else [])"

text \<open>
  \<^verbatim>\<open>serialize_doc\<close>: \<^verbatim>\<open>_id\<close> leaves the document and its text enters as \<^verbatim>\<open>id\<close>; the
  date and the two timestamps become their ISO text; the other fields stay.
\<close>

record 'a serialized =
  out_id :: string
  out_date :: string
  out_description :: string
  out_amount :: 'a
  out_kind :: string
  out_created_at :: string
  out_updated_at :: string

definition serialize_doc :: "'a expense \<Rightarrow> 'a serialized" where
  "serialize_doc doc =
     \<lparr>out_id = doc_id doc,
      out_date = date_isoformat (date doc),
      out_description = description doc,
      out_amount = amount doc,
      out_kind = kind doc,
      out_created_at = datetime_isoformat (created_at doc),
      out_updated_at = datetime_isoformat (updated_at doc)\<rparr>"

definition list_expenses :: "int option \<Rightarrow> int option \<Rightarrow> 'a expense list \<Rightarrow> 'a serialized list" where
  "list_expenses month year ds = map serialize_doc (get_documents (list_query month year) ds)"

text \<open>
  \<^verbatim>\<open>get_summary\<close>. The \<^verbatim>\<open>$group\<close> stage with \<^verbatim>\<open>"_id": None\<close> puts every document it
  receives into one group, and yields no group when it receives no document.
\<close>

record 'a totals =
  t_debit :: 'a
  t_credit :: 'a

record 'a summary =
  total_debit :: 'a
  total_credit :: 'a
  balance :: 'a

definition group_all :: "'a::{zero,plus} expense list \<Rightarrow> 'a totals list" where
  "group_all ds =
     (if ds = [] then []
      else [\<lparr>t_debit = sum_acc (cond_amount ''debit'') ds,
             t_credit = sum_acc (cond_amount ''credit'') ds\<rparr>])"

text \<open>\<^verbatim>\<open>"balance": {"$subtract": ["$total_credit", "$total_debit"]}\<close>\<close>

definition project_summary :: "'a::minus totals \<Rightarrow> 'a summary" where
  "project_summary g =
     \<lparr>total_debit = t_debit g, total_credit = t_credit g, balance = t_credit g - t_debit g\<rparr>"

text \<open>The documents that reach the \<^verbatim>\<open>$group\<close> stage: the \<^verbatim>\<open>$match\<close> stage is in the pipeline only when \<^verbatim>\<open>expr_parts\<close> is not empty.\<close>

definition summary_matched :: "int option \<Rightarrow> int option \<Rightarrow> 'a expense list \<Rightarrow> 'a expense list" where
  "summary_matched month year ds =
     (let expr_parts = month_part month @ year_part year
      in if expr_parts \<noteq> [] then filter (matches (And expr_parts)) ds else ds)"

text \<open>
  The handler returns the first document of the result, or the three zeros when the
  result is empty. With the store reachable the aggregation raises nothing, so the
  \<^verbatim>\<open>except\<close> branch has no counterpart.
\<close>

definition get_summary :: "int option \<Rightarrow> int option \<Rightarrow> 'a::{zero,plus,minus} expense list \<Rightarrow> 'a summary" where
  "get_summary month year ds =
     (let result = map project_summary (group_all (summary_matched month year ds))
      in case result of
           [] \<Rightarrow> \<lparr>total_debit = 0, total_credit = 0, balance = 0\<rparr>
         | r # _ \<Rightarrow> r)"

section \<open>Create, update, delete\<close>

definition kind_detail :: string where
  "kind_detail = ''kind must be '' @ [CHR 0x27] @ ''debit'' @ [CHR 0x27] @ '' or '' @
                 [CHR 0x27] @ ''credit'' @ [CHR 0x27]"

text \<open>
  Modelled from the spec: \<^verbatim>\<open>create_document\<close> of \<^verbatim>\<open>database.py\<close>, which is not among
  the sources. The spec has creation stamp \<^verbatim>\<open>created_at\<close> and \<^verbatim>\<open>updated_at\<close> with the
  current time, delegate the insertion to the store and return the new identifier.
  \<open>new_id\<close> is the identifier the store assigns.
\<close>

definition create_document ::
  "datetime \<Rightarrow> objectid \<Rightarrow> 'a ExpenseCreate \<Rightarrow> 'a expense list \<Rightarrow> string \<times> 'a expense list" where
  "create_document now new_id data ds =
     (new_id,
      ds @ [\<lparr>doc_id = new_id, date = c_date data, description = c_description data,
              amount = c_amount data, kind = c_kind data,
              created_at = now, updated_at = now\<rparr>])"

definition create_expense ::
  "'a ExpenseCreate \<Rightarrow> datetime \<Rightarrow> objectid \<Rightarrow> 'a expense list \<Rightarrow> (error + response) \<times> 'a expense list" where
  "create_expense payload now new_id ds =
     (if c_kind payload \<noteq> ''debit'' \<and> c_kind payload \<noteq> ''credit''
      then (Inl (HTTPException 422 kind_detail), ds)
      else (case create_document now new_id payload ds of
              (i, ds') \<Rightarrow> (Inr (Id i), ds')))"

text \<open>
  \<^verbatim>\<open>ObjectId(expense_id)\<close> on a string: 24 hexadecimal digits, or \<^verbatim>\<open>InvalidId\<close> is
  raised. Upper-case and lower-case digits denote the same identifier.
\<close>

definition is_hex :: "char \<Rightarrow> bool" where
  "is_hex c = (c \<in> set ''0123456789abcdefABCDEF'')"

definition lower_hex :: "char \<Rightarrow> char" where
  "lower_hex c =
     (if c = CHR ''A'' then CHR ''a'' else if c = CHR ''B'' then CHR ''b''
      else if c = CHR ''C'' then CHR ''c'' else if c = CHR ''D'' then CHR ''d''
      else if c = CHR ''E'' then CHR ''e'' else if c = CHR ''F'' then CHR ''f'' else c)"

definition valid_oid :: "string \<Rightarrow> bool" where
  "valid_oid s = (length s = 24 \<and> list_all is_hex s)"

definition ObjectId :: "string \<Rightarrow> error + objectid" where
  "ObjectId s = (if valid_oid s then Inr (map lower_hex s) else Inl (InvalidId s))"

text \<open>
  \<^verbatim>\<open>payload.model_dump(exclude_none=True)\<close> keeps the fields that are not \<^verbatim>\<open>None\<close>;
  the handler then adds \<^verbatim>\<open>updated_at\<close>. A field of \<open>updates\<close> is \<open>None\<close> when the
  dictionary has no such key.
\<close>

record 'a updates =
  s_date :: "date option"
  s_description :: "string option"
  s_amount :: "'a option"
  s_kind :: "string option"
  s_updated_at :: "datetime option"

definition model_dump_exclude_none :: "'a ExpenseUpdate \<Rightarrow> 'a updates" where
  "model_dump_exclude_none payload =
     \<lparr>s_date = u_date payload, s_description = u_description payload,
      s_amount = u_amount payload, s_kind = u_kind payload, s_updated_at = None\<rparr>"

definition no_updates :: "'a updates \<Rightarrow> bool" where
  "no_updates u =
     (s_date u = None \<and> s_description u = None \<and> s_amount u = None \<and> s_kind u = None \<and>
      s_updated_at u = None)"

text \<open>\<^verbatim>\<open>{"$set": updates}\<close>: each key of the dictionary replaces that field of the document.\<close>

definition apply_set :: "'a updates \<Rightarrow> 'a expense \<Rightarrow> 'a expense" where
  "apply_set u doc =
     doc\<lparr>date := (case s_date u of Some v \<Rightarrow> v | None \<Rightarrow> date doc),
         description := (case s_description u of Some v \<Rightarrow> v | None \<Rightarrow> description doc),
         amount := (case s_amount u of Some v \<Rightarrow> v | None \<Rightarrow> amount doc),
         kind := (case s_kind u of Some v \<Rightarrow> v | None \<Rightarrow> kind doc),
         updated_at := (case s_updated_at u of Some v \<Rightarrow> v | None \<Rightarrow> updated_at doc)\<rparr>"

text \<open>
  \<^verbatim>\<open>update_one({"_id": oid}, {"$set": u})\<close> changes the first document with that
  identifier and reports \<^verbatim>\<open>matched_count\<close>; \<^verbatim>\<open>delete_one({"_id": oid})\<close> removes the
  first such document and reports \<^verbatim>\<open>deleted_count\<close>.
\<close>

fun update_one :: "objectid \<Rightarrow> 'a updates \<Rightarrow> 'a expense list \<Rightarrow> nat \<times> 'a expense list" where
  "update_one oid u [] = (0, [])"
| "update_one oid u (d # ds) =
     (if doc_id d = oid then (1, apply_set u d # ds)
      else (case update_one oid u ds of (n, ds') \<Rightarrow> (n, d # ds')))"


text \<open>
  \<^verbatim>\<open>update_expense\<close>: the empty dictionary returns before anything else is evaluated;
  otherwise \<^verbatim>\<open>ObjectId(expense_id)\<close> is evaluated as an argument of \<^verbatim>\<open>update_one\<close>,
  hence before the store is called.
\<close>

definition update_expense ::
  "string \<Rightarrow> 'a ExpenseUpdate \<Rightarrow> datetime \<Rightarrow> 'a expense list \<Rightarrow> (error + response) \<times> 'a expense list" where
  "update_expense expense_id payload now ds =
     (let updates = model_dump_exclude_none payload
      in if no_updates updates then (Inr (Updated False), ds)
         else (let updates = updates\<lparr>s_updated_at := Some now\<rparr>
               in case ObjectId expense_id of
                    Inl e \<Rightarrow> (Inl e, ds)
                  | Inr oid \<Rightarrow>
                      (case update_one oid updates ds of
                         (matched_count, ds') \<Rightarrow>
                           if matched_count = 0
                           then (Inl (HTTPException 404 ''Expense not found''), ds')
                           else (Inr (Updated True), ds'))))"


section \<open>The fixture of the spec's scenarios\<close>

text \<open>
  The two records of the scenarios: rent, a debit of 1200 on 2024-03-15, and salary, a
  credit of 3000 on 2024-03-20; a clock value; a request with a negative amount; and
  the update request that carries no field.
\<close>

definition clock :: datetime where
  "clock = \<lparr>dt_date = \<lparr>d_year = 2024, d_month = 5, d_day = 1\<rparr>,
            dt_hour = 9, dt_minute = 30, dt_second = 0, dt_microsecond = 0\<rparr>"

definition rent :: "int expense" where
  "rent = \<lparr>doc_id = ''65f2a1b2c3d4e5f601234567'',
           date = \<lparr>d_year = 2024, d_month = 3, d_day = 15\<rparr>,
           description = ''rent'', amount = 1200, kind = ''debit'',
           created_at = clock, updated_at = clock\<rparr>"

definition salary :: "int expense" where
  "salary = \<lparr>doc_id = ''65f2a1b2c3d4e5f601234568'',
             date = \<lparr>d_year = 2024, d_month = 3, d_day = 20\<rparr>,
             description = ''salary'', amount = 3000, kind = ''credit'',
             created_at = clock, updated_at = clock\<rparr>"

definition rent_request :: "int ExpenseCreate" where
  "rent_request = \<lparr>c_date = \<lparr>d_year = 2024, d_month = 3, d_day = 15\<rparr>,
                   c_description = ''rent'', c_amount = 1200, c_kind = ''debit''\<rparr>"


definition no_fields :: "int ExpenseUpdate" where
  "no_fields = \<lparr>u_date = None, u_description = None, u_amount = None, u_kind = None\<rparr>"


section \<open>Properties of the monthly chart\<close>

lemma foldl_month_map_inv:
  "\<forall>m d. mp m = Some d \<longrightarrow> entry_month d = m \<and> d \<in> S \<Longrightarrow>
   foldl (\<lambda>mp d. mp(entry_month d \<mapsto> d)) mp data m = Some d \<Longrightarrow>
   entry_month d = m \<and> d \<in> S \<union> set data"
proof (induction data arbitrary: mp S)
  case Nil
  then show ?case by simp
next
  case (Cons x xs)
  have "\<forall>m d. (mp(entry_month x \<mapsto> x)) m = Some d \<longrightarrow> entry_month d = m \<and> d \<in> insert x S"
    using Cons.prems(1) by auto
  from Cons.IH[OF this] Cons.prems(2) show ?case by auto
qed

lemma month_map_Some: "month_map data m = Some d \<Longrightarrow> entry_month d = m \<and> d \<in> set data"
  using foldl_month_map_inv[of Map.empty "{}" data m d] by (simp add: month_map_def)

lemma add_to_group_months:
  "g_month ` set (add_to_group d gs) = insert (d_month (date d)) (g_month ` set gs)"
  by (induction gs) (auto simp: accumulate_def)

lemma foldl_group_months:
  "g_month ` set (foldl (\<lambda>gs d. add_to_group d gs) gs ds) = g_month ` set gs \<union> (\<lambda>d. d_month (date d)) ` set ds"
  by (induction ds arbitrary: gs) (auto simp: add_to_group_months)

lemma group_by_month_months:
  "g_month ` set (group_by_month ds) = (\<lambda>d. d_month (date d)) ` set ds"
  by (simp add: group_by_month_def foldl_group_months)

lemma chart_pipeline_months:
  "entry_month ` set (chart_pipeline y ds) = (\<lambda>d. d_month (date d)) ` {d \<in> set ds. d_year (date d) = y}"
proof -
  have "entry_month ` set (chart_pipeline y ds) = g_month ` set (group_by_month (filter (eval_expr (Eq Year_of_date y)) ds))"
    by (simp add: chart_pipeline_def project_entry_def image_image)
  then show ?thesis by (simp add: group_by_month_months)
qed


lemma chart_entry_month:
  "entry_month (case month_map data m of Some d \<Rightarrow> d
                | None \<Rightarrow> \<lparr>entry_month = m, debit = 0, credit = 0\<rparr>) = m"
  by (auto split: option.splits dest: month_map_Some)

lemma map_upto_id: "(\<And>m. f m = m) \<Longrightarrow> map f xs = xs"
  by (induction xs) auto

text \<open>
  Claim C1. Whatever the year argument and the stored transactions, the chart has
  exactly the twelve entries of the months 1 to 12, in ascending order; and an entry
  whose month has no transaction in the charted year carries debit 0 and credit 0.
\<close>

theorem monthly_chart_complete:
  "map entry_month (monthly_chart year now_year ds) = [1..12] \<and>
   (\<forall>e \<in> set (monthly_chart year now_year ds).
      (\<forall>d \<in> set ds. d_year (date d) = chart_year year now_year \<longrightarrow> d_month (date d) \<noteq> entry_month e) \<longrightarrow>
      e = \<lparr>entry_month = entry_month e, debit = 0, credit = 0\<rparr>)"
proof (intro conjI ballI impI)
  show "map entry_month (monthly_chart year now_year ds) = [1..12]"
    unfolding monthly_chart_def Let_def map_map comp_def
    by (rule map_upto_id) (rule chart_entry_month)
next
  fix e :: "'a chart_entry"
  define y where "y = chart_year year now_year"
  assume e: "e \<in> set (monthly_chart year now_year ds)"
    and none: "\<forall>d \<in> set ds. d_year (date d) = chart_year year now_year \<longrightarrow> d_month (date d) \<noteq> entry_month e"
  from e obtain m where
    em: "e = (case month_map (chart_pipeline y ds) m of Some d \<Rightarrow> d
              | None \<Rightarrow> \<lparr>entry_month = m, debit = 0, credit = 0\<rparr>)"
    by (auto simp: monthly_chart_def Let_def y_def)
  have m: "entry_month e = m"
    unfolding em by (rule chart_entry_month)
  have "month_map (chart_pipeline y ds) m = None"
  proof (rule ccontr)
    assume "month_map (chart_pipeline y ds) m \<noteq> None"
    then obtain d where d: "month_map (chart_pipeline y ds) m = Some d" by auto
    from month_map_Some[OF d] have "m \<in> entry_month ` set (chart_pipeline y ds)" by auto
    then obtain x where "x \<in> set ds" "d_year (date x) = y" "d_month (date x) = m"
      unfolding chart_pipeline_months by auto
    with none m show False by (auto simp: y_def)
  qed
  with em m show "e = \<lparr>entry_month = entry_month e, debit = 0, credit = 0\<rparr>" by simp
qed

theorem monthly_chart_complete_witness:
  "d_month (date rent) \<noteq> 4 \<and> d_month (date salary) \<noteq> 4 \<and>
   map entry_month (monthly_chart (Some 2024) 2026 [rent, salary]) = [1..12] \<and>
   monthly_chart (Some 2024) 2026 [rent, salary] ! 3 = \<lparr>entry_month = 4, debit = 0, credit = 0\<rparr>"
proof -
  let ?c = "monthly_chart (Some 2024) 2026 [rent, salary]"
  have months: "map entry_month ?c = [1..12]"
    using monthly_chart_complete[of "Some 2024" 2026 "[rent, salary]"] by blast
  have len: "length ?c = 12"
    using arg_cong[OF months, of length] by simp
  have "entry_month (?c ! 3) = [1..12] ! 3"
    using len nth_map[of 3 ?c entry_month] months by simp
  also have "[1..12] ! 3 = (4::int)"
    by code_simp
  finally have m4: "entry_month (?c ! 3) = 4" .
  have none: "\<forall>d \<in> set [rent, salary]. d_year (date d) = chart_year (Some 2024) 2026 \<longrightarrow>
       d_month (date d) \<noteq> 4"
    by (simp add: rent_def salary_def)
  have "?c ! 3 \<in> set ?c"
    using len by simp
  with monthly_chart_complete[of "Some 2024" 2026 "[rent, salary]"] none m4
  have "?c ! 3 = \<lparr>entry_month = 4, debit = 0, credit = 0\<rparr>"
    by metis
  moreover have "d_month (date rent) \<noteq> 4" "d_month (date salary) \<noteq> 4"
    by (simp_all add: rent_def salary_def)
  ultimately show ?thesis using months by blast
qed

section \<open>Properties of the summary\<close>

lemma foldl_cond_amount:
  fixes a :: "'a::{zero,plus}"
  assumes add0: "\<forall>x::'a. x + 0 = x"
  shows "foldl (\<lambda>acc d. acc + cond_amount k d) a ds =
         foldl (\<lambda>acc d. acc + amount d) a (filter (\<lambda>d. kind d = k) ds)"
  using add0 by (induction ds arbitrary: a) (simp_all add: cond_amount_def)

lemma sum_acc_cond_amount:
  fixes ds :: "'a::{zero,plus} expense list"
  assumes "\<forall>x::'a. x + 0 = x"
  shows "sum_acc (cond_amount k) ds = sum_acc amount (filter (\<lambda>d. kind d = k) ds)"
  unfolding sum_acc_def by (rule foldl_cond_amount[OF assms])

text \<open>
  Claim C2. For every transaction set, filtered by the period or not, the summary's
  balance is its total credit minus its total debit, the total debit is the sum of
  the amounts of the set's records of kind debit, and the total credit the sum of the
  amounts of its records of kind credit. Of arithmetic the proof uses \<open>x + 0 = x\<close> and
  \<open>0 - 0 = 0\<close> only.
\<close>

theorem summary_balance_identity:
  fixes ds :: "'a::{zero,plus,minus} expense list"
  assumes add0: "\<forall>x::'a. x + 0 = x" and sub0: "(0::'a) - 0 = 0"
  shows "balance (get_summary month year ds) =
           total_credit (get_summary month year ds) - total_debit (get_summary month year ds) \<and>
         total_debit (get_summary month year ds) =
           sum_acc amount (filter (\<lambda>d. kind d = ''debit'') (summary_matched month year ds)) \<and>
         total_credit (get_summary month year ds) =
           sum_acc amount (filter (\<lambda>d. kind d = ''credit'') (summary_matched month year ds))"
proof (cases "summary_matched month year ds = []")
  case True
  then have "get_summary month year ds = \<lparr>total_debit = 0, total_credit = 0, balance = 0\<rparr>"
    by (simp add: get_summary_def group_all_def)
  with True sub0 show ?thesis by (simp add: sum_acc_def)
next
  case False
  then have "get_summary month year ds =
      project_summary \<lparr>t_debit = sum_acc (cond_amount ''debit'') (summary_matched month year ds),
                       t_credit = sum_acc (cond_amount ''credit'') (summary_matched month year ds)\<rparr>"
    by (simp add: get_summary_def group_all_def)
  then show ?thesis
    by (simp add: project_summary_def sum_acc_cond_amount[OF add0])
qed

theorem summary_balance_identity_witness:
  "(\<forall>x::int. x + 0 = x) \<and> (0::int) - 0 = 0 \<and>
   summary_matched (Some 3) (Some 2024) [rent, salary] = [rent, salary] \<and>
   get_summary (Some 3) (Some 2024) [rent, salary] =
     \<lparr>total_debit = 1200, total_credit = 3000, balance = 1800\<rparr>"
proof -
  have a: "\<forall>x::int. x + 0 = x" and b: "(0::int) - 0 = 0" by simp_all
  have m: "summary_matched (Some 3) (Some 2024) [rent, salary] = [rent, salary]"
    by (simp add: summary_matched_def month_part_def year_part_def truthy_def rent_def salary_def)
  have "total_debit (get_summary (Some 3) (Some 2024) [rent, salary]) = 1200"
       "total_credit (get_summary (Some 3) (Some 2024) [rent, salary]) = 3000"
       "balance (get_summary (Some 3) (Some 2024) [rent, salary]) = 3000 - 1200"
    using summary_balance_identity[OF a b, of "Some 3" "Some 2024" "[rent, salary]"]
    unfolding m by (simp_all add: sum_acc_def rent_def salary_def)
  then have "get_summary (Some 3) (Some 2024) [rent, salary] =
     \<lparr>total_debit = 1200, total_credit = 3000, balance = 1800\<rparr>"
    by (cases "get_summary (Some 3) (Some 2024) [rent, salary]") simp
  with a b m show ?thesis by blast
qed

text \<open>
  Claim C3. When the transaction set that reaches the aggregation is empty, the summary
  is the record with total debit 0, total credit 0 and balance 0: all three fields are
  there and are numbers.
\<close>

theorem summary_empty:
  "summary_matched month year ds = [] \<Longrightarrow>
   get_summary month year ds = \<lparr>total_debit = 0, total_credit = 0, balance = 0\<rparr>"
  by (simp add: get_summary_def group_all_def)

theorem summary_empty_witness:
  "summary_matched (Some 4) (Some 2024) [rent, salary] = [] \<and>
   get_summary (Some 4) (Some 2024) [rent, salary] =
     \<lparr>total_debit = 0, total_credit = 0, balance = (0::int)\<rparr> \<and>
   get_summary None None ([] :: int expense list) =
     \<lparr>total_debit = 0, total_credit = 0, balance = 0\<rparr>"
proof -
  have m: "summary_matched (Some 4) (Some 2024) [rent, salary] = []"
    by (simp add: summary_matched_def month_part_def year_part_def truthy_def rent_def salary_def)
  have n: "summary_matched None None ([] :: int expense list) = []"
    by (simp add: summary_matched_def month_part_def year_part_def truthy_def)
  from summary_empty[OF m] summary_empty[OF n] m show ?thesis by simp
qed

section \<open>Properties of the period filter\<close>

text \<open>
  What the query of \<^verbatim>\<open>list_expenses\<close> and the \<^verbatim>\<open>$match\<close> stage of \<^verbatim>\<open>get_summary\<close>
  select: a selector restricts the result when it passes Python's truth test, that is,
  when it is given and is not \<open>0\<close>. For such selectors the listing returns exactly the
  records of that month, of that year, or of both; and a selector other than \<open>0\<close>
  outside the calendar's range selects nothing.
\<close>

lemma list_query_matches:
  "matches (list_query month year) d =
     ((truthy month \<longrightarrow> month = Some (d_month (date d))) \<and>
      (truthy year \<longrightarrow> year = Some (d_year (date d))))"
  by (cases month; cases year)
     (auto simp: list_query_def month_part_def year_part_def truthy_def Let_def)

lemma summary_matched_filter:
  "summary_matched month year ds =
     filter (\<lambda>d. (truthy month \<longrightarrow> month = Some (d_month (date d))) \<and>
                 (truthy year \<longrightarrow> year = Some (d_year (date d)))) ds"
  by (cases month; cases year)
     (auto simp: summary_matched_def month_part_def year_part_def truthy_def Let_def intro: filter_cong)

lemma list_expenses_filter:
  "list_expenses month year ds =
     map serialize_doc
       (filter (\<lambda>d. (truthy month \<longrightarrow> month = Some (d_month (date d))) \<and>
                    (truthy year \<longrightarrow> year = Some (d_year (date d)))) ds)"
proof -
  have "matches (list_query month year) =
          (\<lambda>d::'a expense. (truthy month \<longrightarrow> month = Some (d_month (date d))) \<and>
                (truthy year \<longrightarrow> year = Some (d_year (date d))))"
    by (rule ext) (rule list_query_matches)
  then show ?thesis
    by (simp add: list_expenses_def get_documents_def)
qed

lemma nonzero_out_of_range_matches_nothing:
  assumes "\<forall>d \<in> set ds. valid_date (date d)"
    and "(\<exists>m. month = Some m \<and> m \<noteq> 0 \<and> (m < 1 \<or> 12 < m)) \<or>
         (\<exists>y. year = Some y \<and> y \<noteq> 0 \<and> (y < 1 \<or> 9999 < y))"
  shows "list_expenses month year ds = [] \<and> summary_matched month year ds = []"
proof -
  have "\<not> ((truthy month \<longrightarrow> month = Some (d_month (date d))) \<and>
            (truthy year \<longrightarrow> year = Some (d_year (date d))))" if "d \<in> set ds" for d
    using assms(1)[rule_format, OF that] assms(2)
    by (auto simp: valid_date_def truthy_def)
  then show ?thesis
    by (simp add: list_expenses_filter summary_matched_filter filter_empty_conv)
qed

text \<open>
  Claim C5. The claim has the listing match, when only a year is supplied, exactly the
  records of that year, and when both selectors are supplied, the records that satisfy
  both. The handler tests \<^verbatim>\<open>if year:\<close>, so the supplied year \<open>0\<close> adds no condition:
  neither scenario record is of year \<open>0\<close>, and yet the listing for year \<open>0\<close> returns both,
  alone and together with month 3.
\<close>

theorem list_expenses_year_zero:
  "d_year (date rent) \<noteq> 0 \<and> d_year (date salary) \<noteq> 0 \<and>
   list_query None (Some 0) = Empty \<and>
   list_expenses None (Some 0) [rent, salary] = [serialize_doc rent, serialize_doc salary] \<and>
   list_query (Some 3) (Some 0) = Expr (Eq Month_of_date 3) \<and>
   list_expenses (Some 3) (Some 0) [rent, salary] = [serialize_doc rent, serialize_doc salary]"
  by (simp add: list_expenses_filter list_query_def month_part_def year_part_def truthy_def
      rent_def salary_def)

text \<open>
  Claim C6. The claim has every out-of-range selector, \<open>0\<close> included, match no record.
  Month 13 does match nothing, but the supplied month \<open>0\<close> fails the test
  \<^verbatim>\<open>if month:\<close> and the filter is dropped: the listing returns both scenario records
  and the summary totals them.
\<close>

theorem month_zero_matches_all:
  "list_query (Some 0) None = Empty \<and>
   list_expenses (Some 0) None [rent, salary] = [serialize_doc rent, serialize_doc salary] \<and>
   list_expenses (Some 13) None [rent, salary] = [] \<and>
   summary_matched (Some 0) None [rent, salary] = [rent, salary] \<and>
   get_summary (Some 0) None [rent, salary] =
     \<lparr>total_debit = 1200, total_credit = 3000, balance = 1800\<rparr>"
  by (simp add: list_expenses_filter list_query_def month_part_def year_part_def get_summary_def
      summary_matched_filter group_all_def project_summary_def sum_acc_def cond_amount_def
      truthy_def rent_def salary_def)

section \<open>Properties of create, update and delete\<close>

text \<open>
  Claim C4. A create request whose kind is neither debit nor credit fails with the
  client error 422 and leaves the store as it was; a request whose kind is one of the
  two is inserted, with both timestamps, and the new identifier is returned.
\<close>

theorem create_expense_kind:
  "(c_kind p \<noteq> ''debit'' \<and> c_kind p \<noteq> ''credit'' \<longrightarrow>
      create_expense p now new_id ds = (Inl (HTTPException 422 kind_detail), ds)) \<and>
   (c_kind p = ''debit'' \<or> c_kind p = ''credit'' \<longrightarrow>
      create_expense p now new_id ds =
        (Inr (Id new_id),
         ds @ [\<lparr>doc_id = new_id, date = c_date p, description = c_description p,
                 amount = c_amount p, kind = c_kind p, created_at = now, updated_at = now\<rparr>]))"
  by (auto simp: create_expense_def create_document_def)

theorem create_expense_kind_witness:
  "c_kind (rent_request\<lparr>c_kind := ''transfer''\<rparr>) \<noteq> ''debit'' \<and>
   c_kind (rent_request\<lparr>c_kind := ''transfer''\<rparr>) \<noteq> ''credit'' \<and>
   create_expense (rent_request\<lparr>c_kind := ''transfer''\<rparr>) clock ''65f2a1b2c3d4e5f601234567'' [salary] =
     (Inl (HTTPException 422 kind_detail), [salary]) \<and>
   c_kind rent_request = ''debit'' \<and>
   create_expense rent_request clock ''65f2a1b2c3d4e5f601234567'' [salary] =
     (Inr (Id ''65f2a1b2c3d4e5f601234567''), [salary, rent])"
  using create_expense_kind[of "rent_request\<lparr>c_kind := ''transfer''\<rparr>" clock "''65f2a1b2c3d4e5f601234567''" "[salary]"]
        create_expense_kind[of rent_request clock "''65f2a1b2c3d4e5f601234567''" "[salary]"]
  by (simp add: rent_request_def rent_def)





text \<open>
  Claim C7. An update request that carries no field returns \<^verbatim>\<open>{"updated": False}\<close>
  and leaves the store, and so every \<^verbatim>\<open>updated_at\<close>, as it was, whatever the
  identifier and the clock.
\<close>

theorem update_no_fields:
  "u_date p = None \<Longrightarrow> u_description p = None \<Longrightarrow> u_amount p = None \<Longrightarrow> u_kind p = None \<Longrightarrow>
   update_expense expense_id p now ds = (Inr (Updated False), ds)"
  by (simp add: update_expense_def model_dump_exclude_none_def no_updates_def)

theorem update_no_fields_witness:
  "u_date no_fields = None \<and> u_description no_fields = None \<and> u_amount no_fields = None \<and>
   u_kind no_fields = None \<and>
   update_expense ''65f2a1b2c3d4e5f601234567'' no_fields (clock\<lparr>dt_hour := 10\<rparr>) [rent, salary] =
     (Inr (Updated False), [rent, salary]) \<and>
   updated_at rent = clock \<and>
   update_expense ''no such id'' no_fields clock [rent, salary] = (Inr (Updated False), [rent, salary])"
  using update_no_fields[of no_fields "''65f2a1b2c3d4e5f601234567''" "clock\<lparr>dt_hour := 10\<rparr>" "[rent, salary]"]
        update_no_fields[of no_fields "''no such id''" clock "[rent, salary]"]
  by (simp add: no_fields_def rent_def)









end
